theory Spec2Isabelle
  imports Complex_Main "HOL-Library.Sublist"
begin

section \<open>Text and characters\<close>

text \<open>
  A Python \<open>str\<close> is modelled as a \<open>string\<close>: a list of characters whose code
  points are below 256 (the Latin-1 range). The character classes below are
  Python's own on that range.
\<close>

definition code :: "char \<Rightarrow> nat" where
  "code c = of_char c"

text \<open>\<open>str.isspace\<close> on one character; also the class \<open>\s\<close> of the \<open>re\<close> module.\<close>

definition isspace :: "char \<Rightarrow> bool" where
  "isspace c = (let n = code c in
     (9 \<le> n \<and> n \<le> 13) \<or> (28 \<le> n \<and> n \<le> 32) \<or> n = 133 \<or> n = 160)"

text \<open>\<open>str.isalnum\<close> on one character (letters, digits and numeric characters).\<close>

definition isalnum_char :: "char \<Rightarrow> bool" where
  "isalnum_char c = (let n = code c in
     (48 \<le> n \<and> n \<le> 57) \<or> (65 \<le> n \<and> n \<le> 90) \<or> (97 \<le> n \<and> n \<le> 122) \<or>
     n = 170 \<or> n = 178 \<or> n = 179 \<or> n = 181 \<or> n = 185 \<or> n = 186 \<or>
     (188 \<le> n \<and> n \<le> 190) \<or> (192 \<le> n \<and> n \<le> 214) \<or>
     (216 \<le> n \<and> n \<le> 246) \<or> (248 \<le> n \<and> n \<le> 255))"

text \<open>\<open>t.isalnum()\<close>: a non-empty string of alphanumeric characters.\<close>

definition isalnum :: "string \<Rightarrow> bool" where
  "isalnum t = (t \<noteq> [] \<and> list_all isalnum_char t)"

text \<open>The class \<open>\w\<close> of the \<open>re\<close> module: alphanumeric or underscore.\<close>

definition is_word_char :: "char \<Rightarrow> bool" where
  "is_word_char c = (isalnum_char c \<or> c = CHR ''_'')"

text \<open>The class \<open>[a-z0-9]\<close>.\<close>

definition is_lower_alnum :: "char \<Rightarrow> bool" where
  "is_lower_alnum c = (let n = code c in (97 \<le> n \<and> n \<le> 122) \<or> (48 \<le> n \<and> n \<le> 57))"

text \<open>\<open>str.lower\<close>: the upper-case letters of the range move to their lower-case forms.\<close>

definition lower_char :: "char \<Rightarrow> char" where
  "lower_char c = (let n = code c in
     if (65 \<le> n \<and> n \<le> 90) \<or> (192 \<le> n \<and> n \<le> 214) \<or> (216 \<le> n \<and> n \<le> 222)
     then char_of (n + 32) else c)"

definition lower :: "string \<Rightarrow> string" where
  "lower s = map lower_char s"

text \<open>\<open>sub in text\<close>: \<open>sub\<close> occurs in \<open>text\<close> as a contiguous substring.\<close>

primrec str_in :: "string \<Rightarrow> string \<Rightarrow> bool" where
  "str_in sub [] = (sub = [])"
| "str_in sub (c # cs) = (prefix sub (c # cs) \<or> str_in sub cs)"

text \<open>\<open>sep.join(parts)\<close>.\<close>

fun join :: "string \<Rightarrow> string list \<Rightarrow> string" where
  "join sep [] = []"
| "join sep [p] = p"
| "join sep (p # q # ps) = p @ sep @ join sep (q # ps)"

text \<open>\<open>s.strip()\<close>: whitespace removed at both ends.\<close>

definition strip :: "string \<Rightarrow> string" where
  "strip s = rev (dropWhile isspace (rev (dropWhile isspace s)))"

text \<open>\<open>s.split()\<close>: the maximal runs of non-whitespace characters, in order.\<close>

fun split_acc :: "string \<Rightarrow> string \<Rightarrow> string list" where
  "split_acc acc [] = (if acc = [] then [] else [rev acc])"
| "split_acc acc (c # cs) =
     (if isspace c then (if acc = [] then [] else [rev acc]) @ split_acc [] cs
      else split_acc (c # acc) cs)"

definition split :: "string \<Rightarrow> string list" where
  "split s = split_acc [] s"

section \<open>Text normalizer (nlp.py)\<close>

text \<open>
  A raw text as the callers pass it: a string, or a value that is not a string
  (\<open>None\<close>), which \<open>clean_text\<close> guards against.
\<close>

datatype raw_text = Text string | NonString

text \<open>
  \<open>re.sub(r"<[^>]+>", " ", raw)\<close>: scanning from the left, a \<open><\<close> whose next
  character exists and is not \<open>>\<close>, and which has a \<open>>\<close> further on, starts a
  match that ends at the first such \<open>>\<close>; the match is replaced by one space.
\<close>

function sub_tags :: "string \<Rightarrow> string" where
  "sub_tags [] = []"
| "sub_tags (c # cs) =
     (if c = CHR ''<'' then
        (case cs of
           [] \<Rightarrow> [c]
         | d # ds \<Rightarrow>
             if d \<noteq> CHR ''>'' \<and> CHR ''>'' \<in> set ds
             then CHR '' '' # sub_tags (tl (dropWhile (\<lambda>x. x \<noteq> CHR ''>'') ds))
             else c # sub_tags cs)
      else c # sub_tags cs)"
  by pat_completeness auto
termination
proof (relation "measure length")
  show "wf (measure length)" by simp
next
  fix c :: char and cs :: string and d ds
  assume "cs = d # ds"
  have "length (tl (dropWhile (\<lambda>x. x \<noteq> CHR ''>'') ds)) \<le> length ds"
    using length_dropWhile_le [of "\<lambda>x. x \<noteq> CHR ''>''" ds] by simp
  with \<open>cs = d # ds\<close>
  show "(tl (dropWhile (\<lambda>x. x \<noteq> CHR ''>'') ds), c # cs) \<in> measure length" by simp
qed simp_all

text \<open>\<open>re.sub(r"\s+", " ", text)\<close>: every maximal run of whitespace becomes one space.\<close>

function sub_spaces :: "string \<Rightarrow> string" where
  "sub_spaces [] = []"
| "sub_spaces (c # cs) =
     (if isspace c then CHR '' '' # sub_spaces (dropWhile isspace cs)
      else c # sub_spaces cs)"
  by pat_completeness auto
termination
proof (relation "measure length")
  show "wf (measure length)" by simp
next
  fix c :: char and cs :: string
  show "(dropWhile isspace cs, c # cs) \<in> measure length"
    using length_dropWhile_le [of isspace cs] by simp
qed simp_all

definition clean_text :: "raw_text \<Rightarrow> string" where
  "clean_text raw =
     (case raw of
        NonString \<Rightarrow> []
      | Text s \<Rightarrow> if s = [] then [] else strip (sub_spaces (sub_tags s)))"


text \<open>
  The optional libraries. \<open>nltk\<close> is \<open>None\<close> when \<open>_ensure_nltk\<close> fails to load
  NLTK (the regex fallback is used); otherwise it holds \<open>word_tokenize\<close>, which may
  raise (\<open>None\<close>), and the English stop-word set. \<open>spacy_ents\<close> gives the entities
  \<open>(text, label)\<close> that spaCy finds in a text, or \<open>None\<close> when spaCy or its model
  is missing or raises. The two priority thresholds are read from the environment
  by config.py (defaults 75 and 50).
\<close>

record nltk_lib =
  word_tokenize :: "string \<Rightarrow> string list option"
  stopwords :: "string list"

record env =
  nltk :: "nltk_lib option"
  spacy_ents :: "string \<Rightarrow> (string \<times> string) list option"
  HIGH_PRIORITY_THRESHOLD :: int
  MEDIUM_PRIORITY_THRESHOLD :: int

text \<open>
  \<open>re.findall(r"\b[a-z0-9]{2,}\b", text)\<close>: a match starts and ends at a word
  boundary, so it is a maximal run of word characters (\<open>\w\<close>); the run is a token
  when all its characters are in \<open>[a-z0-9]\<close> and it has at least two of them.
\<close>

fun word_runs :: "string \<Rightarrow> string \<Rightarrow> string list" where
  "word_runs acc [] = (if acc = [] then [] else [rev acc])"
| "word_runs acc (c # cs) =
     (if is_word_char c then word_runs (c # acc) cs
      else (if acc = [] then [] else [rev acc]) @ word_runs [] cs)"

definition findall_tokens :: "string \<Rightarrow> string list" where
  "findall_tokens text =
     filter (\<lambda>r. list_all is_lower_alnum r \<and> 2 \<le> length r) (word_runs [] text)"

definition fallback_stop :: "string list" where
  "fallback_stop = [''the'', ''a'', ''an'', ''and'', ''or'', ''but'', ''in'', ''on'', ''at'',
     ''to'', ''for'', ''of'', ''is'', ''are'', ''was'', ''were'']"

text \<open>\<open>get_tokens\<close>; the result is \<open>None\<close> when NLTK's tokenizer raises.\<close>

definition get_tokens :: "env \<Rightarrow> raw_text \<Rightarrow> bool \<Rightarrow> string list option" where
  "get_tokens e raw remove_stopwords =
     (let text = clean_text raw in
      if text = [] then Some []
      else
        (case nltk e of
           Some lib \<Rightarrow>
             (case word_tokenize lib (lower text) of
                None \<Rightarrow> None
              | Some tokens \<Rightarrow>
                  if remove_stopwords \<and> stopwords lib \<noteq> []
                  then Some (filter (\<lambda>t. isalnum t \<and> t \<notin> set (stopwords lib)) tokens)
                  else Some (filter isalnum tokens))
         | None \<Rightarrow>
             (let tokens = findall_tokens (lower text) in
              if remove_stopwords
              then Some (filter (\<lambda>t. t \<notin> set fallback_stop) tokens)
              else Some tokens)))"

definition extract_ngrams :: "string list \<Rightarrow> nat \<Rightarrow> string list" where
  "extract_ngrams tokens n =
     (if length tokens < n then []
      else map (\<lambda>i. join '' '' (take n (drop i tokens))) [0 ..< length tokens - n + 1])"

text \<open>The set literal \<open>signal_words\<close> (it names \<open>refinery\<close> twice; a set holds it once).\<close>

definition signal_words :: "string list" where
  "signal_words = [''fuel'', ''cement'', ''marine'', ''bitumen'', ''tender'', ''supply'',
     ''contract'', ''expansion'', ''industrial'', ''road'', ''construction'', ''shipping'',
     ''vessel'', ''procurement'', ''refinery'', ''power'', ''aviation'', ''mining'', ''steel'',
     ''bunkering'', ''vessels'', ''bituminous'', ''asphalt'', ''petcoke'', ''furnace'',
     ''bunker'', ''maritime'', ''highway'', ''paving'', ''lube'', ''ore'']"

definition score_phrase :: "string \<Rightarrow> nat" where
  "score_phrase p = length (filter (\<lambda>w. w \<in> set (split p)) signal_words)"

text \<open>
  The loop over the sorted candidates: a phrase already seen is skipped, a new one is
  appended, and the loop breaks once \<open>max_phrases\<close> phrases are collected.
\<close>

fun collect_phrases :: "nat \<Rightarrow> (string \<times> nat) list \<Rightarrow> string list \<Rightarrow> string list \<Rightarrow> string list" where
  "collect_phrases max_phrases [] seen out = out"
| "collect_phrases max_phrases ((p, _) # cs) seen out =
     (if p \<in> set seen then collect_phrases max_phrases cs seen out
      else if max_phrases \<le> length (out @ [p]) then out @ [p]
      else collect_phrases max_phrases cs (p # seen) (out @ [p]))"

text \<open>\<open>extract_key_phrases\<close>; \<open>None\<close> when \<open>get_tokens\<close> raises. Python's sort is stable,
  as \<open>sort_key\<close> is.\<close>

definition extract_key_phrases :: "env \<Rightarrow> raw_text \<Rightarrow> nat \<Rightarrow> string list option" where
  "extract_key_phrases e raw max_phrases =
     (let text = clean_text raw in
      if text = [] then Some []
      else
        (case get_tokens e (Text text) True of
           None \<Rightarrow> None
         | Some tokens \<Rightarrow>
             if length tokens < 2 then Some []
             else
               (let two = extract_ngrams tokens 2;
                    three = extract_ngrams tokens 3;
                    candidates = map (\<lambda>p. (p, score_phrase p))
                                   (filter (\<lambda>p. 0 < score_phrase p) (two @ three));
                    sorted_candidates = sort_key (\<lambda>x. - int (snd x)) candidates
                in Some (collect_phrases max_phrases sorted_candidates [] []))))"

text \<open>
  \<open>extract_entities\<close>: the organisation and product names, or \<open>None\<close> for the empty
  dictionary returned when spaCy is unavailable. The source builds each list from a
  set, whose order Python leaves open; only its emptiness is used by the scorer.
\<close>

definition extract_entities :: "env \<Rightarrow> raw_text \<Rightarrow> (string list \<times> string list) option" where
  "extract_entities e raw =
     (case spacy_ents e (take 5000 (clean_text raw)) of
        None \<Rightarrow> None
      | Some ents \<Rightarrow>
          Some (take 10 (remdups (map (\<lambda>x. strip (fst x))
                  (filter (\<lambda>x. snd x = ''ORG'' \<and> 2 < length (strip (fst x))) ents))),
                take 10 (remdups (map (\<lambda>x. strip (fst x))
                  (filter (\<lambda>x. snd x = ''PRODUCT'' \<and> 2 < length (strip (fst x))) ents)))))"

definition INTENT_SIGNALS_STRONG :: "string list" where
  "INTENT_SIGNALS_STRONG = [''tender'', ''rfp'', ''rfi'', ''contract'', ''procurement'',
     ''bid'', ''order'', ''purchase'']"

definition INTENT_SIGNALS_MEDIUM :: "string list" where
  "INTENT_SIGNALS_MEDIUM = [''expansion'', ''capacity'', ''new plant'', ''supply'',
     ''requirement'', ''fuel supply'']"

definition INTENT_SIGNALS_WEAK :: "string list" where
  "INTENT_SIGNALS_WEAK = [''announce'', ''plan'', ''consider'', ''seek'', ''invite'', ''float'']"

text \<open>One pass of \<open>for w in signals: if w in text: score += points\<close>.\<close>

definition tier_points :: "int \<Rightarrow> string list \<Rightarrow> string \<Rightarrow> int" where
  "tier_points points signals text =
     sum_list (map (\<lambda>w. if str_in w text then points else 0) signals)"

definition procurement_intent_score :: "raw_text \<Rightarrow> int" where
  "procurement_intent_score raw =
     (let text = lower (clean_text raw) in
      if text = [] then 0
      else min 100 (tier_points 25 INTENT_SIGNALS_STRONG text
                    + tier_points 12 INTENT_SIGNALS_MEDIUM text
                    + tier_points 5 INTENT_SIGNALS_WEAK text))"

definition synonyms :: "(string \<times> string) list" where
  "synonyms = [(''marine'', ''maritime bunker vessel shipping''),
     (''fuel'', ''fuels petcoke furnace bunker''),
     (''bitumen'', ''bituminous asphalt paving''),
     (''cement'', ''clinker kiln''),
     (''tender'', ''tenders rfq rfp bid''),
     (''construction'', ''infrastructure highway road'')]"

definition expand_text_with_synonyms :: "string \<Rightarrow> string" where
  "expand_text_with_synonyms text =
     (let extra = map snd (filter (\<lambda>x. str_in (fst x) (lower text)) synonyms) in
      if extra \<noteq> [] then text @ '' '' @ join '' '' extra else text)"

text \<open>
  The dictionary built by \<open>summarize_for_scoring\<close>, without its \<open>summary\<close> entry (the
  extractive summary is display text that no other field depends on). The entry
  \<open>procurement_intent_score\<close> is the field \<open>intent\<close>.
\<close>

record nlp_summary =
  cleaned_text :: string
  tokens :: "string list"
  key_phrases :: "string list"
  entities :: "(string list \<times> string list) option"
  intent :: int

text \<open>\<open>summarize_for_scoring\<close>; \<open>None\<close> when a tokenizer call raises.\<close>

definition summarize_for_scoring :: "env \<Rightarrow> raw_text \<Rightarrow> nlp_summary option" where
  "summarize_for_scoring e raw =
     (let text = clean_text raw in
      case get_tokens e (Text text) True of
        None \<Rightarrow> None
      | Some toks \<Rightarrow>
          (case extract_key_phrases e raw 12 of
             None \<Rightarrow> None
           | Some kps \<Rightarrow>
               Some \<lparr>cleaned_text = text, tokens = toks, key_phrases = kps,
                     entities = extract_entities e raw,
                     intent = procurement_intent_score raw\<rparr>))"


section \<open>Extraction (extraction.py)\<close>

definition INDUSTRY_SIGNALS :: "(string \<times> string list) list" where
  "INDUSTRY_SIGNALS =
    [(''Cement'', [''cement'', ''clinker'', ''kiln'', ''grinding'', ''limestone'']),
     (''Marine'', [''marine'', ''shipping'', ''vessel'', ''port'', ''bunker'', ''maritime'']),
     (''Construction / Roads'', [''road'', ''highway'', ''bitumen'', ''asphalt'', ''paving'',
        ''construction'', ''infrastructure'']),
     (''Power / Utilities'', [''power'', ''generation'', ''furnace'', ''boiler'',
        ''industrial fuel'', ''dg set'']),
     (''Refinery / Petrochemical'', [''refinery'', ''petrochemical'', ''cracker'', ''lube'',
        ''specialty product'']),
     (''Mining / Steel'', [''mining'', ''steel'', ''iron'', ''ore'', ''pellet'']),
     (''Aviation'', [''aviation'', ''atf'', ''airport'', ''jet fuel'']),
     (''General Industrial'', [''industrial'', ''manufacturing'', ''tender'', ''procurement'',
        ''supply''])]"

definition PRODUCT_MAPPING :: "(string \<times> string list) list" where
  "PRODUCT_MAPPING =
    [(''Cement'', [''Petcoke'', ''Furnace Oil'', ''Industrial Fuels'']),
     (''Marine'', [''Marine Fuel'', ''LSHS'', ''Bunker'']),
     (''Construction / Roads'', [''Bitumen'', ''VGB'', ''Paving Grade'']),
     (''Power / Utilities'', [''Furnace Oil'', ''LSHS'', ''Industrial Fuels'']),
     (''Refinery / Petrochemical'', [''Specialty Products'', ''Lubes'', ''Feedstocks'']),
     (''Mining / Steel'', [''Industrial Fuels'', ''Furnace Oil'', ''Petcoke'']),
     (''Aviation'', [''ATF'', ''Jet Fuel'']),
     (''General Industrial'', [''Industrial Fuels'', ''Furnace Oil'', ''LSHS''])]"

definition PROCUREMENT_SIGNALS :: "string list" where
  "PROCUREMENT_SIGNALS = [''tender'', ''rfp'', ''rfi'', ''contract'', ''procurement'',
     ''supply'', ''requirement'', ''expansion'', ''capacity'', ''new plant'', ''order'',
     ''bid'', ''purchase'']"

text \<open>\<open>INDUSTRY_SIGNALS[industry]\<close>; every key looked up is a key of the table.\<close>

definition keywords_of :: "string \<Rightarrow> string list" where
  "keywords_of industry_name =
     (case map_of INDUSTRY_SIGNALS industry_name of Some kws \<Rightarrow> kws | None \<Rightarrow> [])"

text \<open>\<open>sum(1 for kw in keywords if kw in text)\<close>.\<close>

definition count_hits :: "string list \<Rightarrow> string \<Rightarrow> nat" where
  "count_hits keywords text = length (filter (\<lambda>kw. str_in kw text) keywords)"

text \<open>The clue of one vertical: the inner loop breaks at the first keyword found.\<close>

definition industry_clue :: "string \<Rightarrow> string \<times> string list \<Rightarrow> string list" where
  "industry_clue text entry =
     (case find (\<lambda>kw. str_in kw text) (snd entry) of
        Some kw \<Rightarrow> [''Industry signal: '' @ fst entry @ '' ('' @ kw @ '')'']
      | None \<Rightarrow> [])"

text \<open>The clue list before the final slice \<open>clues[:14]\<close>.\<close>

definition all_clues :: "env \<Rightarrow> raw_text \<Rightarrow> string list" where
  "all_clues e raw =
     (let text = lower (clean_text raw) in
      map (\<lambda>sig. ''Procurement signal: '' @ sig)
          (filter (\<lambda>sig. str_in sig text) PROCUREMENT_SIGNALS)
      @ concat (map (industry_clue text) INDUSTRY_SIGNALS)
      @ (case extract_key_phrases e raw 6 of
           Some phrases \<Rightarrow> map (\<lambda>p. ''Phrase: '' @ p) phrases
         | None \<Rightarrow> []))"

definition extract_requirement_clues :: "env \<Rightarrow> raw_text \<Rightarrow> string list" where
  "extract_requirement_clues e raw = take 14 (all_clues e raw)"

text \<open>The text that \<open>detect_industry\<close> matches keywords against: the cleaned,
  lower-cased, synonym-expanded text, followed by the key phrases when their
  extraction does not raise.\<close>

definition match_text :: "env \<Rightarrow> raw_text \<Rightarrow> string" where
  "match_text e raw =
     (let text = expand_text_with_synonyms (lower (clean_text raw)) in
      case extract_key_phrases e raw 10 of
        Some phrases \<Rightarrow> text @ '' '' @ lower (join '' '' phrases)
      | None \<Rightarrow> text)"

definition specific :: "string list" where
  "specific = filter (\<lambda>k. k \<noteq> ''General Industrial'') (map fst INDUSTRY_SIGNALS)"

text \<open>The loop over the specific verticals, carrying \<open>(best_industry, best_score)\<close>.\<close>

fun best_loop :: "string \<Rightarrow> string list \<Rightarrow> string \<times> nat \<Rightarrow> string \<times> nat" where
  "best_loop text [] best = best"
| "best_loop text (i # rest) best =
     (let score = count_hits (keywords_of i) text in
      if snd best < score then best_loop text rest (i, score)
      else best_loop text rest best)"

definition classify :: "string \<Rightarrow> string" where
  "classify text =
     (let best_industry = fst (best_loop text specific (''Unknown'', 0)) in
      if best_industry = ''Unknown''
      then (if 0 < count_hits (keywords_of ''General Industrial'') text
            then ''General Industrial'' else ''Unknown'')
      else best_industry)"

definition detect_industry :: "env \<Rightarrow> raw_text \<Rightarrow> string \<times> string list" where
  "detect_industry e raw =
     (let best_industry = classify (match_text e raw);
          products = (case map_of PRODUCT_MAPPING best_industry of
                        Some ps \<Rightarrow> ps | None \<Rightarrow> [''Industrial Fuels''])
      in (best_industry, products))"

section \<open>Scoring (scoring.py)\<close>

text \<open>
  A weight is a Python float. Finite floats are rational numbers, and the model
  computes with their values exactly: the rounding of each product, quotient or sum
  to the nearest double is not modelled, and neither are infinite or missing (NULL)
  weights. \<open>py_int\<close> is \<open>int(x)\<close> on a float: truncation towards zero.
\<close>

type_synonym weights = "string \<rightharpoonup> rat"

definition py_int :: "rat \<Rightarrow> int" where
  "py_int x = (if 0 \<le> x then \<lfloor>x\<rfloor> else \<lceil>x\<rceil>)"

text \<open>\<open>weights.get(key, 1.0)\<close>.\<close>

definition weight_get :: "weights \<Rightarrow> string \<Rightarrow> rat" where
  "weight_get w k = (case w k of Some v \<Rightarrow> v | None \<Rightarrow> 1)"

text \<open>\<open>_nlp_summary\<close>: the summary, or the empty dictionary (\<open>None\<close>) when
  \<open>summarize_for_scoring\<close> raises.\<close>

definition nlp_summary_of :: "env \<Rightarrow> raw_text \<Rightarrow> nlp_summary option" where
  "nlp_summary_of e raw = summarize_for_scoring e raw"

definition nlp_boost :: "nlp_summary option \<Rightarrow> int" where
  "nlp_boost summ =
     (let phrases = (case summ of Some s \<Rightarrow> key_phrases s | None \<Rightarrow> []);
          orgs = (case summ of
                    Some s \<Rightarrow> (case entities s of Some ents \<Rightarrow> fst ents | None \<Rightarrow> [])
                  | None \<Rightarrow> []);
          boost = (if 2 \<le> length phrases then 3 else 0) + (if orgs \<noteq> [] then 2 else 0)
      in min 5 boost)"

text \<open>The loop over \<open>PROCUREMENT_SIGNALS\<close>: the first signal found adds its bonus and
  the loop breaks.\<close>

fun procurement_bonus :: "weights \<Rightarrow> string \<Rightarrow> string list \<Rightarrow> int" where
  "procurement_bonus w text [] = 0"
| "procurement_bonus w text (sig # rest) =
     (if str_in sig text then py_int (15 * weight_get w (''signal_'' @ sig))
      else procurement_bonus w text rest)"

definition expansion_bonus :: "weights \<Rightarrow> string \<Rightarrow> int" where
  "expansion_bonus w text =
     (if str_in ''expansion'' text \<or> str_in ''new plant'' text \<or> str_in ''capacity'' text
      then py_int (25 * weight_get w ''signal_expansion'') else 0)"

definition tender_bonus :: "weights \<Rightarrow> string \<Rightarrow> int" where
  "tender_bonus w text =
     (if str_in ''tender'' text \<or> str_in ''rfp'' text \<or> str_in ''contract'' text
      then py_int (20 * weight_get w ''signal_tender'') else 0)"

definition industry_bonus :: "weights \<Rightarrow> string \<Rightarrow> int" where
  "industry_bonus w industry_name =
     (let ind_w = weight_get w (''industry_'' @ industry_name) in
      if industry_name \<noteq> ''Unknown'' then py_int (30 * ind_w) else 0)"

text \<open>The value of \<open>score\<close> just before \<open>score = min(100, score)\<close>.\<close>

definition accumulated_score :: "env \<Rightarrow> weights \<Rightarrow> string \<Rightarrow> int" where
  "accumulated_score e w raw_text =
     (let text = lower raw_text;
          summ = nlp_summary_of e (Text raw_text);
          intent_score = (case summ of Some s \<Rightarrow> intent s | None \<Rightarrow> 0);
          industry_name = fst (detect_industry e (Text raw_text))
      in procurement_bonus w text PROCUREMENT_SIGNALS
         + expansion_bonus w text
         + tender_bonus w text
         + industry_bonus w industry_name
         + nlp_boost summ
         + py_int (of_int intent_score / 10))"

datatype error = AttributeError

record analysis =
  industry :: string
  product_recommendations :: "string list"
  requirement_clues :: "string list"
  score :: int
  confidence :: int
  priority :: string
  intent_score :: int

text \<open>
  \<open>analyze_and_score\<close>, with the weights that \<open>_get_weights\<close> loaded. A raw text that
  is not a string has no \<open>lower\<close> method: the first statement raises. The \<open>summary\<close>
  entry of the result is left out, as in \<open>nlp_summary\<close>.
\<close>

definition analyze_and_score :: "env \<Rightarrow> weights \<Rightarrow> raw_text \<Rightarrow> error + analysis" where
  "analyze_and_score e w raw =
     (case raw of
        NonString \<Rightarrow> Inl AttributeError
      | Text raw_text \<Rightarrow>
          (let summ = nlp_summary_of e raw;
               detected = detect_industry e raw;
               sc = min 100 (accumulated_score e w raw_text);
               conf = min 95 (sc + 10);
               prio = (if HIGH_PRIORITY_THRESHOLD e \<le> sc then ''HIGH''
                       else if MEDIUM_PRIORITY_THRESHOLD e \<le> sc then ''MEDIUM''
                       else ''LOW'')
           in Inr \<lparr>industry = fst detected,
                    product_recommendations = snd detected,
                    requirement_clues = extract_requirement_clues e raw,
                    score = sc, confidence = conf, priority = prio,
                    intent_score = (case summ of Some s \<Rightarrow> intent s | None \<Rightarrow> 0)\<rparr>))"


section \<open>Feedback loop (feedback.py)\<close>

text \<open>
  A row of \<open>get_feedback_for_weights\<close>: the industry of the lead that a feedback
  event belongs to and the event's outcome (both columns may be NULL). A row of the
  table \<open>scoring_weights\<close>, whose column \<open>industry_or_product\<close> is UNIQUE; the
  surrogate \<open>id\<close> is never read and is left out. \<open>updated_at\<close> is the time of the
  statement that wrote the row.
\<close>

record feedback_row =
  lead_industry :: "string option"
  outcome :: "string option"

record weight_row =
  industry_or_product :: string
  weight_real :: rat
  signal_type :: string
  updated_at :: nat

text \<open>\<open>_get_weights\<close>: the dictionary read from the table, empty when the database
  cannot be read (\<open>None\<close>).\<close>

definition get_weights :: "weight_row list option \<Rightarrow> weights" where
  "get_weights table =
     (case table of
        None \<Rightarrow> Map.empty
      | Some rows \<Rightarrow> fold (\<lambda>r m. m(industry_or_product r \<mapsto> weight_real r)) rows Map.empty)"

text \<open>\<open>round(x)\<close> to the nearest integer, ties to the even one, and \<open>round(x, 2)\<close>.\<close>

definition round_half_even :: "rat \<Rightarrow> int" where
  "round_half_even x =
     (let f = \<lfloor>x\<rfloor>; d = x - of_int f in
      if d < 1 / 2 then f else if 1 / 2 < d then f + 1 else if even f then f else f + 1)"

definition py_round2 :: "rat \<Rightarrow> rat" where
  "py_round2 x = of_int (round_half_even (x * 100)) / 100"

text \<open>\<open>r.get("industry") or "Unknown"\<close>: a missing or empty industry is \<open>Unknown\<close>.\<close>

definition industry_or_unknown :: "feedback_row \<Rightarrow> string" where
  "industry_or_unknown r =
     (case lead_industry r of
        None \<Rightarrow> ''Unknown''
      | Some i \<Rightarrow> if i = [] then ''Unknown'' else i)"

text \<open>\<open>industry_outcomes[ind].append(o)\<close> on a \<open>defaultdict(list)\<close>, which keeps its
  keys in insertion order.\<close>

fun append_outcome ::
  "string \<Rightarrow> string option \<Rightarrow> (string \<times> string option list) list
     \<Rightarrow> (string \<times> string option list) list" where
  "append_outcome k v [] = [(k, [v])]"
| "append_outcome k v ((k', vs) # rest) =
     (if k = k' then (k', vs @ [v]) # rest else (k', vs) # append_outcome k v rest)"

definition group_outcomes :: "feedback_row list \<Rightarrow> (string \<times> string option list) list" where
  "group_outcomes rows =
     fold (\<lambda>r acc. append_outcome (industry_or_unknown r) (outcome r) acc) rows []"

definition is_accepted :: "string option \<Rightarrow> bool" where
  "is_accepted v = (v = Some ''Assigned'' \<or> v = Some ''Accepted'' \<or> v = Some ''Converted'')"

text \<open>The weight of one group (the count \<open>rejected\<close> is computed and never used).\<close>

definition group_weight :: "string option list \<Rightarrow> rat" where
  "group_weight outcomes =
     (let accepted = length (filter is_accepted outcomes);
          total = length outcomes;
          ratio = (if total \<noteq> 0 then of_nat accepted / of_nat total else 1 / 2)
      in py_round2 (85 / 100 + 35 / 100 * ratio))"

text \<open>\<open>INSERT ... ON CONFLICT(industry_or_product) DO UPDATE SET weight_real = ?,
  updated_at = CURRENT_TIMESTAMP\<close>.\<close>

fun upsert :: "nat \<Rightarrow> string \<Rightarrow> rat \<Rightarrow> weight_row list \<Rightarrow> weight_row list" where
  "upsert now k w [] =
     [\<lparr>industry_or_product = k, weight_real = w, signal_type = ''industry'',
       updated_at = now\<rparr>]"
| "upsert now k w (r # rest) =
     (if industry_or_product r = k then r\<lparr>weight_real := w, updated_at := now\<rparr> # rest
      else r # upsert now k w rest)"

definition upsert_group ::
  "nat \<Rightarrow> string \<times> string option list \<Rightarrow> weight_row list \<Rightarrow> weight_row list" where
  "upsert_group now g table =
     (if length (snd g) = 0 then table
      else upsert now (''industry_'' @ fst g) (group_weight (snd g)) table)"

text \<open>
  \<open>_update_weights_from_feedback\<close>, run at time \<open>now\<close> on the table; \<open>rows\<close> is \<open>None\<close>
  when the database is not available or \<open>get_feedback_for_weights\<close> raises.
\<close>

definition update_weights_from_feedback ::
  "nat \<Rightarrow> feedback_row list option \<Rightarrow> weight_row list \<Rightarrow> weight_row list" where
  "update_weights_from_feedback now rows table =
     (case rows of
        None \<Rightarrow> table
      | Some rs \<Rightarrow> fold (upsert_group now) (group_outcomes rs) table)"

section \<open>Reference inputs and the classifier as the specification words it\<close>

text \<open>An environment with neither NLTK nor spaCy installed and the default thresholds.\<close>

definition bare_env :: env where
  "bare_env = \<lparr>nltk = None, spacy_ents = (\<lambda>_. None),
     HIGH_PRIORITY_THRESHOLD = 75, MEDIUM_PRIORITY_THRESHOLD = 50\<rparr>"

text \<open>
  The classifier in the specification's words: the greatest keyword-hit count over
  the specific verticals decides; among the verticals that reach it the first in
  catalog order wins; when that count is zero the text is General Industrial if one
  of that category's keywords occurs in it, and Unknown otherwise.
\<close>

definition spec_classify :: "string \<Rightarrow> string" where
  "spec_classify text =
     (let hits = (\<lambda>v. count_hits (keywords_of v) text);
          best = fold max (map hits specific) 0
      in if best = 0
         then (if list_ex (\<lambda>kw. str_in kw text) (keywords_of ''General Industrial'')
               then ''General Industrial'' else ''Unknown'')
         else (case find (\<lambda>v. hits v = best) specific of
                 Some v \<Rightarrow> v
               | None \<Rightarrow> ''Unknown''))"

text \<open>The feedback of the specification's scenario: three converted leads and one
  rejected lead of the industry Marine.\<close>

definition marine_feedback :: "feedback_row list" where
  "marine_feedback =
     [\<lparr>lead_industry = Some ''Marine'', outcome = Some ''Converted''\<rparr>,
      \<lparr>lead_industry = Some ''Marine'', outcome = Some ''Converted''\<rparr>,
      \<lparr>lead_industry = Some ''Marine'', outcome = Some ''Rejected''\<rparr>,
      \<lparr>lead_industry = Some ''Marine'', outcome = Some ''Converted''\<rparr>]"

text \<open>The row of the weight table stored under a key, and what the table holds apart
  from the write times.\<close>

definition find_row :: "weight_row list \<Rightarrow> string \<Rightarrow> weight_row option" where
  "find_row table k = find (\<lambda>r. industry_or_product r = k) table"

definition table_contents :: "weight_row list \<Rightarrow> (string \<times> rat \<times> string) list" where
  "table_contents table = map (\<lambda>r. (industry_or_product r, weight_real r, signal_type r)) table"

text \<open>The outcomes collected so far under a key of the grouping dictionary, and the
  fact that a run at time \<open>now\<close> has written a group's weight into the table.\<close>

definition outcomes_of :: "(string \<times> string option list) list \<Rightarrow> string \<Rightarrow> string option list" where
  "outcomes_of acc g = (case map_of acc g of Some vs \<Rightarrow> vs | None \<Rightarrow> [])"

definition written :: "nat \<Rightarrow> weight_row list \<Rightarrow> string \<times> string option list \<Rightarrow> bool" where
  "written now table g =
     (case find_row table (''industry_'' @ fst g) of
        Some r \<Rightarrow> weight_real r = group_weight (snd g) \<and> updated_at r = now
      | None \<Rightarrow> False)"

section \<open>Facts about the scorer\<close>

lemma py_int_mono: "x \<le> y \<Longrightarrow> py_int x \<le> py_int y"
proof -
  have "\<lceil>x\<rceil> \<le> \<lfloor>y\<rfloor>" if "x < 0" "0 \<le> y"
  proof -
    have "\<lceil>x\<rceil> \<le> 0" using that(1) by simp
    moreover have "0 \<le> \<lfloor>y\<rfloor>" using that(2) by simp
    ultimately show ?thesis by linarith
  qed
  moreover assume "x \<le> y"
  ultimately show ?thesis
    unfolding py_int_def by (auto intro: floor_mono ceiling_mono)
qed


lemma weight_get_upd:
  "weight_get (w(k \<mapsto> v)) k' = (if k' = k then v else weight_get w k')"
  by (simp add: weight_get_def)

lemma procurement_bonus_mono:
  "(\<And>k. weight_get w k \<le> weight_get w' k) \<Longrightarrow>
   procurement_bonus w text sigs \<le> procurement_bonus w' text sigs"
  by (induction sigs) (auto intro!: py_int_mono)

lemma expansion_bonus_mono:
  "(\<And>k. weight_get w k \<le> weight_get w' k) \<Longrightarrow>
   expansion_bonus w text \<le> expansion_bonus w' text"
  by (auto simp: expansion_bonus_def intro!: py_int_mono)

lemma tender_bonus_mono:
  "(\<And>k. weight_get w k \<le> weight_get w' k) \<Longrightarrow>
   tender_bonus w text \<le> tender_bonus w' text"
  by (auto simp: tender_bonus_def intro!: py_int_mono)

lemma industry_bonus_mono:
  "(\<And>k. weight_get w k \<le> weight_get w' k) \<Longrightarrow>
   industry_bonus w i \<le> industry_bonus w' i"
  by (auto simp: industry_bonus_def Let_def intro!: py_int_mono)

lemma accumulated_score_mono:
  assumes "\<And>k. weight_get w k \<le> weight_get w' k"
  shows "accumulated_score e w t \<le> accumulated_score e w' t"
  unfolding accumulated_score_def Let_def
  using procurement_bonus_mono [OF assms] expansion_bonus_mono [OF assms]
    tender_bonus_mono [OF assms] industry_bonus_mono [OF assms]
  by (intro add_mono order_refl) auto









lemma weight_get_cong: "w k = w' k \<Longrightarrow> weight_get w k = weight_get w' k"
  by (simp add: weight_get_def)

lemma procurement_bonus_cong:
  "(\<And>sig. w (''signal_'' @ sig) = w' (''signal_'' @ sig)) \<Longrightarrow>
   procurement_bonus w text sigs = procurement_bonus w' text sigs"
  by (induction sigs) (auto simp: weight_get_def)


section \<open>Facts about the classifier\<close>

lemma fold_max_ge: "s \<le> fold max (xs :: nat list) s"
  by (induction xs arbitrary: s) (auto intro: order_trans [OF max.cobounded2])

lemma fold_max_attained:
  "fold max (map h vs) s \<noteq> s \<Longrightarrow> \<exists>v \<in> set vs. h v = fold max (map h vs) (s :: nat)"
proof (induction vs arbitrary: s)
  case Nil
  then show ?case by simp
next
  case (Cons v vs)
  let ?s' = "max (h v) s"
  have unfold: "fold max (map h (v # vs)) s = fold max (map h vs) ?s'" by simp
  show ?case
  proof (cases "fold max (map h vs) ?s' = ?s'")
    case True
    with Cons.prems unfold have "?s' \<noteq> s" by simp
    then have "?s' = h v" by (simp add: max_def split: if_splits)
    with True unfold have "h v = fold max (map h (v # vs)) s" by simp
    then show ?thesis by simp
  next
    case False
    from Cons.IH [OF False] unfold show ?thesis by auto
  qed
qed

lemma best_loop_fst:
  "fst (best_loop text vs (b, s)) =
     (if fold max (map (\<lambda>v. count_hits (keywords_of v) text) vs) s = s then b
      else (case find (\<lambda>v. count_hits (keywords_of v) text
                             = fold max (map (\<lambda>v. count_hits (keywords_of v) text) vs) s) vs of
              Some v \<Rightarrow> v | None \<Rightarrow> ''Unknown''))"
proof (induction vs arbitrary: b s)
  case Nil
  then show ?case by simp
next
  case (Cons v vs)
  let ?h = "\<lambda>v. count_hits (keywords_of v) text"
  show ?case
  proof (cases "s < ?h v")
    case True
    then have mx: "max (?h v) s = ?h v" by simp
    have ge: "?h v \<le> fold max (map ?h vs) (?h v)" by (rule fold_max_ge)
    have step: "best_loop text (v # vs) (b, s) = best_loop text vs (v, ?h v)"
      using True by (simp add: Let_def)
    show ?thesis
    proof (cases "fold max (map ?h vs) (?h v) = ?h v")
      case eq: True
      then show ?thesis using True Cons.IH [of v "?h v"] step mx by simp
    next
      case neq: False
      with ge have "?h v < fold max (map ?h vs) (?h v)" by simp
      with True have "fold max (map ?h vs) (?h v) \<noteq> s" by simp
      then show ?thesis using neq True Cons.IH [of v "?h v"] step mx by simp
    qed
  next
    case False
    then have mx: "max (?h v) s = s" by simp
    have ge: "s \<le> fold max (map ?h vs) s" by (rule fold_max_ge)
    have step: "best_loop text (v # vs) (b, s) = best_loop text vs (b, s)"
      using False by (simp add: Let_def)
    show ?thesis
    proof (cases "fold max (map ?h vs) s = s")
      case eq: True
      then show ?thesis using Cons.IH [of b s] step mx by simp
    next
      case neq: False
      with ge have "s < fold max (map ?h vs) s" by simp
      with False have "?h v \<noteq> fold max (map ?h vs) s" by simp
      then show ?thesis using neq Cons.IH [of b s] step mx by simp
    qed
  qed
qed

lemma unknown_not_specific: "''Unknown'' \<notin> set specific"
  by (simp add: specific_def INDUSTRY_SIGNALS_def)

lemma count_hits_pos: "0 < count_hits kws text \<longleftrightarrow> list_ex (\<lambda>kw. str_in kw text) kws"
  by (induction kws) (auto simp: count_hits_def)

lemma classify_spec: "classify text = spec_classify text"
proof -
  define h where "h = (\<lambda>v. count_hits (keywords_of v) text)"
  define m where "m = fold max (map h specific) 0"
  have bl: "fst (best_loop text specific (''Unknown'', 0)) =
      (if m = 0 then ''Unknown''
       else (case find (\<lambda>v. h v = m) specific of Some v \<Rightarrow> v | None \<Rightarrow> ''Unknown''))"
    unfolding h_def m_def by (simp add: best_loop_fst)
  show ?thesis
  proof (cases "m = 0")
    case True
    then show ?thesis
      using bl by (simp add: classify_def spec_classify_def Let_def h_def [symmetric]
          m_def [symmetric] count_hits_pos)
  next
    case False
    then obtain v where v: "v \<in> set specific" "h v = m"
      using fold_max_attained [of h specific 0] by (auto simp: m_def)
    then obtain u where u: "find (\<lambda>v. h v = m) specific = Some u"
      by (cases "find (\<lambda>v. h v = m) specific") (auto simp: find_None_iff)
    then have "u \<in> set specific" by (auto simp: find_Some_iff)
    then have "u \<noteq> ''Unknown''" using unknown_not_specific by auto
    then show ?thesis
      using bl False u
      by (simp add: classify_def spec_classify_def Let_def h_def [symmetric] m_def [symmetric])
  qed
qed

lemma product_mapping_nonempty: "map_of PRODUCT_MAPPING k = Some ps \<Longrightarrow> ps \<noteq> []"
  by (auto simp: PRODUCT_MAPPING_def split: if_splits)









section \<open>Facts about the feedback loop\<close>

lemma append_outcome_keys:
  "fst ` set (append_outcome k v acc) = insert k (fst ` set acc)"
proof (induction acc)
  case Nil
  then show ?case by simp
next
  case (Cons a acc)
  obtain k' vs where a: "a = (k', vs)" by (cases a)
  show ?case
  proof (cases "k = k'")
    case True
    with a show ?thesis by auto
  next
    case False
    with a Cons.IH show ?thesis by (simp add: insert_commute)
  qed
qed

lemma append_outcome_distinct:
  "distinct (map fst acc) \<Longrightarrow> distinct (map fst (append_outcome k v acc))"
proof (induction acc)
  case Nil
  then show ?case by simp
next
  case (Cons a acc)
  obtain k' vs where a: "a = (k', vs)" by (cases a)
  show ?case
  proof (cases "k = k'")
    case True
    with Cons.prems a show ?thesis by simp
  next
    case False
    have "k' \<notin> fst ` set (append_outcome k v acc)"
      using Cons.prems a False by (simp add: append_outcome_keys)
    with Cons a False show ?thesis by simp
  qed
qed

lemma append_outcome_nonempty:
  "list_all (\<lambda>g. snd g \<noteq> []) acc \<Longrightarrow> list_all (\<lambda>g. snd g \<noteq> []) (append_outcome k v acc)"
  by (induction acc) auto

lemma append_outcome_lookup:
  "map_of (append_outcome k v acc) g =
     (if g = k then Some (outcomes_of acc k @ [v]) else map_of acc g)"
  by (induction acc) (auto simp: outcomes_of_def)

lemma outcomes_of_append_outcome:
  "outcomes_of (append_outcome k v acc) g = outcomes_of acc g @ (if g = k then [v] else [])"
  by (simp add: outcomes_of_def append_outcome_lookup)

lemma fold_append_distinct:
  "distinct (map fst acc) \<Longrightarrow>
   distinct (map fst (fold (\<lambda>r a. append_outcome (industry_or_unknown r) (outcome r) a) rows acc))"
  by (induction rows arbitrary: acc) (simp_all add: append_outcome_distinct)

lemma fold_append_nonempty:
  "list_all (\<lambda>g. snd g \<noteq> []) acc \<Longrightarrow>
   list_all (\<lambda>g. snd g \<noteq> [])
     (fold (\<lambda>r a. append_outcome (industry_or_unknown r) (outcome r) a) rows acc)"
  by (induction rows arbitrary: acc) (simp_all add: append_outcome_nonempty)

lemma fold_append_keys:
  "fst ` set (fold (\<lambda>r a. append_outcome (industry_or_unknown r) (outcome r) a) rows acc)
     = fst ` set acc \<union> industry_or_unknown ` set rows"
  by (induction rows arbitrary: acc) (simp_all add: append_outcome_keys)

lemma fold_append_outcomes:
  "outcomes_of (fold (\<lambda>r a. append_outcome (industry_or_unknown r) (outcome r) a) rows acc) g
     = outcomes_of acc g @ map outcome (filter (\<lambda>r. industry_or_unknown r = g) rows)"
  by (induction rows arbitrary: acc) (simp_all add: outcomes_of_append_outcome)

lemma group_outcomes_props:
  "distinct (map fst (group_outcomes rows))"
  "list_all (\<lambda>g. snd g \<noteq> []) (group_outcomes rows)"
  "fst ` set (group_outcomes rows) = industry_or_unknown ` set rows"
  "outcomes_of (group_outcomes rows) g = map outcome (filter (\<lambda>r. industry_or_unknown r = g) rows)"
  using fold_append_distinct [of "[]" rows] fold_append_nonempty [of "[]" rows]
    fold_append_keys [of rows "[]"] fold_append_outcomes [of rows "[]" g]
  by (simp_all add: group_outcomes_def outcomes_of_def)


lemma find_row_upsert:
  "find_row (upsert now k w table) k' =
     (if k' = k
      then (case find_row table k of
              Some r \<Rightarrow> Some (r\<lparr>weight_real := w, updated_at := now\<rparr>)
            | None \<Rightarrow> Some \<lparr>industry_or_product = k, weight_real = w,
                             signal_type = ''industry'', updated_at = now\<rparr>)
      else find_row table k')"
  by (induction table) (auto simp: find_row_def)

lemma upsert_keys:
  "industry_or_product ` set (upsert now k w table)
     = insert k (industry_or_product ` set table)"
  by (induction table) (auto simp: insert_commute)

lemma upsert_distinct:
  "distinct (map industry_or_product table) \<Longrightarrow>
   distinct (map industry_or_product (upsert now k w table))"
proof (induction table)
  case Nil
  then show ?case by simp
next
  case (Cons r table)
  show ?case
  proof (cases "industry_or_product r = k")
    case True
    with Cons.prems show ?thesis by simp
  next
    case False
    have "industry_or_product r \<notin> industry_or_product ` set (upsert now k w table)"
      using Cons.prems False by (simp add: upsert_keys)
    with Cons False show ?thesis by simp
  qed
qed

lemma upsert_same_contents:
  "find_row table k = Some r \<Longrightarrow> weight_real r = w \<Longrightarrow>
   table_contents (upsert now k w table) = table_contents table"
  by (induction table) (auto simp: find_row_def table_contents_def split: if_splits)

lemma upsert_same_row:
  "find_row table k = Some r \<Longrightarrow> weight_real r = w \<Longrightarrow> updated_at r = now \<Longrightarrow>
   upsert now k w table = table"
  by (induction table) (auto simp: find_row_def split: if_splits)

lemma written_upsert_group:
  "snd g \<noteq> [] \<Longrightarrow> written now (upsert_group now g table) g"
  by (simp add: written_def upsert_group_def find_row_upsert split: option.splits)

lemma written_upsert_other:
  "fst g' \<noteq> fst g \<Longrightarrow> written now (upsert_group now' g' table) g = written now table g"
  by (simp add: written_def upsert_group_def find_row_upsert)

lemma fold_upsert_written:
  "distinct (map fst gs) \<Longrightarrow> list_all (\<lambda>g. snd g \<noteq> []) gs \<Longrightarrow>
   list_all (written now table) done_gs \<Longrightarrow> set (map fst done_gs) \<inter> set (map fst gs) = {} \<Longrightarrow>
   list_all (written now (fold (upsert_group now) gs table)) (done_gs @ gs)"
proof (induction gs arbitrary: table done_gs)
  case Nil
  then show ?case by simp
next
  case (Cons g gs)
  let ?t = "upsert_group now g table"
  have 1: "distinct (map fst gs)" using Cons.prems(1) by simp
  have 2: "list_all (\<lambda>g. snd g \<noteq> []) gs" using Cons.prems(2) by simp
  have 3: "list_all (written now ?t) (done_gs @ [g])"
  proof -
    have "written now ?t g" using Cons.prems(2) by (simp add: written_upsert_group)
    moreover have "written now ?t x" if "x \<in> set done_gs" for x
    proof -
      from that Cons.prems(4) have "fst g \<noteq> fst x" by auto
      then have "written now ?t x = written now table x" by (rule written_upsert_other)
      with that Cons.prems(3) show ?thesis by (simp add: list_all_iff)
    qed
    then have "list_all (written now ?t) done_gs" by (simp add: list_all_iff)
    ultimately show ?thesis by simp
  qed
  have 4: "set (map fst (done_gs @ [g])) \<inter> set (map fst gs) = {}"
    using Cons.prems(1,4) by auto
  from Cons.IH [OF 1 2 3 4] show ?case by simp
qed

lemma fold_upsert_same_contents:
  "list_all (\<lambda>g. \<exists>r. find_row table (''industry_'' @ fst g) = Some r \<and> weight_real r = group_weight (snd g)) gs \<Longrightarrow>
   table_contents (fold (upsert_group now) gs table) = table_contents table"
proof (induction gs arbitrary: table)
  case Nil
  then show ?case by simp
next
  case (Cons g gs)
  let ?t = "upsert_group now g table"
  from Cons.prems obtain r where r: "find_row table (''industry_'' @ fst g) = Some r"
    "weight_real r = group_weight (snd g)" by auto
  have c: "table_contents ?t = table_contents table"
    using r by (simp add: upsert_group_def upsert_same_contents)
  have "list_all (\<lambda>g. \<exists>r. find_row ?t (''industry_'' @ fst g) = Some r \<and> weight_real r = group_weight (snd g)) gs"
    using Cons.prems r
    by (auto simp: list_all_iff upsert_group_def find_row_upsert)
  from Cons.IH [OF this] c show ?case by simp
qed

lemma fold_upsert_same_rows:
  "list_all (written now table) gs \<Longrightarrow> fold (upsert_group now) gs table = table"
proof (induction gs arbitrary: table)
  case Nil
  then show ?case by simp
next
  case (Cons g gs)
  have "upsert_group now g table = table"
    using Cons.prems
    by (auto simp: written_def upsert_group_def upsert_same_row split: option.splits)
  with Cons show ?case by simp
qed

lemma fold_upsert_distinct:
  "distinct (map industry_or_product table) \<Longrightarrow>
   distinct (map industry_or_product (fold (upsert_group now) gs table))"
  by (induction gs arbitrary: table) (auto simp: upsert_group_def upsert_distinct)

lemma written_after_run:
  "list_all (written now (fold (upsert_group now) (group_outcomes rows) table)) (group_outcomes rows)"
  using fold_upsert_written [of "group_outcomes rows" now table "[]"]
  by (simp add: group_outcomes_props)


section \<open>The scoring bonuses\<close>




section \<open>Bounds of score and confidence\<close>




section \<open>The industry classifier\<close>

text \<open>
  C3 (as amended). For every environment and input, \<open>detect_industry\<close> returns the
  specific vertical (every catalog vertical except General Industrial) with the
  greatest keyword-hit count, ties going to the first in catalog order; when the
  best specific count is zero it returns General Industrial if one of that
  category's keywords is present, and Unknown otherwise. The hits are counted over
  the synonym-expanded text followed by a space and the lower-cased key phrases
  joined by spaces (over the synonym-expanded text alone when key-phrase extraction
  raises).
\<close>

theorem detect_industry_is_argmax:
  "fst (detect_industry e raw) = spec_classify (match_text e raw)"
  by (simp add: detect_industry_def Let_def classify_spec)

text \<open>
  The claim as stated counts over the synonym-expanded text alone. For the text
  \<open>industrial of fuel\<close> that text is \<open>industrial of fuel fuels petcoke furnace bunker\<close>:
  Marine (\<open>bunker\<close>) and Power / Utilities (\<open>furnace\<close>) have one hit each and Marine
  comes first. The code appends the key phrase \<open>industrial fuel\<close>, a second keyword
  of Power / Utilities, and returns that vertical.
\<close>

theorem key_phrases_change_the_vertical:
  "fst (detect_industry bare_env (Text ''industrial of fuel'')) = ''Power / Utilities''
   \<and> spec_classify (expand_text_with_synonyms (lower (clean_text (Text ''industrial of fuel''))))
       = ''Marine''"
  by code_simp

theorem detect_industry_is_argmax_witness:
  "match_text bare_env (Text ''industrial of fuel'')
     = ''industrial of fuel fuels petcoke furnace bunker industrial fuel''
   \<and> fst (detect_industry bare_env (Text ''industrial of fuel'')) = ''Power / Utilities''"
proof -
  have m: "match_text bare_env (Text ''industrial of fuel'')
     = ''industrial of fuel fuels petcoke furnace bunker industrial fuel''"
    by code_simp
  have c: "spec_classify ''industrial of fuel fuels petcoke furnace bunker industrial fuel''
     = ''Power / Utilities''"
    by code_simp
  from detect_industry_is_argmax [of bare_env "Text ''industrial of fuel''"] m c
  show ?thesis by simp
qed

section \<open>The weight adapter\<close>



section \<open>Monotonicity in a weight\<close>

text \<open>
  C5. For every environment, text, weight table and key, replacing the key's weight
  (1.0 when the table lacks the key) by a larger value never decreases the score
  accumulated before the clamp to 100. This holds for every key, and so for the
  keys of the matched bonuses.
\<close>

theorem score_monotone_in_weight:
  assumes "weight_get w k \<le> v"
  shows "accumulated_score e w t \<le> accumulated_score e (w(k \<mapsto> v)) t"
  by (rule accumulated_score_mono) (simp add: weight_get_upd assms)

theorem score_monotone_in_weight_witness:
  "weight_get Map.empty ''signal_tender'' \<le> 5 / 4
   \<and> accumulated_score bare_env Map.empty ''tender''
       \<le> accumulated_score bare_env (Map.empty(''signal_tender'' \<mapsto> 5 / 4)) ''tender''"
proof -
  have h: "weight_get Map.empty ''signal_tender'' \<le> 5 / 4" by (simp add: weight_get_def)
  from score_monotone_in_weight [OF h, of bare_env "''tender''"] h show ?thesis by simp
qed

section \<open>Recomputing the weights twice\<close>

text \<open>
  C6. Running the weight update a second time on the same feedback rows leaves the
  weight table as the first run left it: keys, weights and signal types are the
  same row by row, whatever the times of the two runs, and a second run at the same
  time leaves the table identical, write times included. A table with one row per
  key keeps one row per key.
\<close>

theorem recompute_idempotent:
  "table_contents (update_weights_from_feedback t2 rows (update_weights_from_feedback t1 rows table))
     = table_contents (update_weights_from_feedback t1 rows table)
   \<and> update_weights_from_feedback t1 rows (update_weights_from_feedback t1 rows table)
     = update_weights_from_feedback t1 rows table
   \<and> (distinct (map industry_or_product table)
        \<longrightarrow> distinct (map industry_or_product (update_weights_from_feedback t1 rows table)))"
proof (cases rows)
  case None
  then show ?thesis by (simp add: update_weights_from_feedback_def)
next
  case (Some rs)
  let ?gs = "group_outcomes rs"
  let ?t = "fold (upsert_group t1) ?gs table"
  have w: "list_all (written t1 ?t) ?gs" by (rule written_after_run)
  then have "list_all (\<lambda>g. \<exists>r. find_row ?t (''industry_'' @ fst g) = Some r
      \<and> weight_real r = group_weight (snd g)) ?gs"
    by (auto simp: list_all_iff written_def split: option.splits)
  then have a: "table_contents (fold (upsert_group t2) ?gs ?t) = table_contents ?t"
    by (rule fold_upsert_same_contents)
  have b: "fold (upsert_group t1) ?gs ?t = ?t"
    using w by (rule fold_upsert_same_rows)
  show ?thesis
    using a b Some by (simp add: update_weights_from_feedback_def fold_upsert_distinct)
qed

theorem recompute_idempotent_witness:
  "distinct (map industry_or_product
      [\<lparr>industry_or_product = ''signal_tender'', weight_real = 1, signal_type = ''signal'',
        updated_at = 0\<rparr>])
   \<and> distinct (map industry_or_product
        (update_weights_from_feedback 1 (Some marine_feedback)
          [\<lparr>industry_or_product = ''signal_tender'', weight_real = 1, signal_type = ''signal'',
            updated_at = 0\<rparr>]))
   \<and> table_contents
        (update_weights_from_feedback 2 (Some marine_feedback)
          (update_weights_from_feedback 1 (Some marine_feedback)
            [\<lparr>industry_or_product = ''signal_tender'', weight_real = 1, signal_type = ''signal'',
              updated_at = 0\<rparr>]))
     = [(''signal_tender'', 1, ''signal''), (''industry_Marine'', 111 / 100, ''industry'')]"
proof -
  let ?t = "[\<lparr>industry_or_product = ''signal_tender'', weight_real = 1, signal_type = ''signal'',
        updated_at = 0\<rparr>]"
  have d: "distinct (map industry_or_product ?t)" by simp
  have once: "table_contents (update_weights_from_feedback 1 (Some marine_feedback) ?t)
     = [(''signal_tender'', 1, ''signal''), (''industry_Marine'', 111 / 100, ''industry'')]"
    by code_simp
  from recompute_idempotent [of 2 "Some marine_feedback" 1 ?t] d once show ?thesis by simp
qed

section \<open>Products are never empty\<close>

text \<open>
  C7. For every environment and input, string or not, the products returned by
  \<open>detect_industry\<close> are non-empty: for the industry Unknown they are the default
  list holding \<open>Industrial Fuels\<close>, every list of the product table is non-empty,
  and every vertical of the catalog has a list in the product table.
\<close>

theorem products_never_empty:
  "snd (detect_industry e raw) \<noteq> []
   \<and> (fst (detect_industry e raw) = ''Unknown''
        \<longrightarrow> snd (detect_industry e raw) = [''Industrial Fuels''])
   \<and> list_all (\<lambda>entry. snd entry \<noteq> []) PRODUCT_MAPPING
   \<and> list_all (\<lambda>entry. map_of PRODUCT_MAPPING (fst entry) \<noteq> None) INDUSTRY_SIGNALS"
proof -
  have a: "snd (detect_industry e raw) \<noteq> []"
    using product_mapping_nonempty
    by (auto simp: detect_industry_def Let_def split: option.splits)
  have b: "map_of PRODUCT_MAPPING ''Unknown'' = None"
    by (simp add: PRODUCT_MAPPING_def)
  have c: "list_all (\<lambda>entry. snd entry \<noteq> []) PRODUCT_MAPPING"
    by (simp add: PRODUCT_MAPPING_def)
  have d: "list_all (\<lambda>entry. map_of PRODUCT_MAPPING (fst entry) \<noteq> None) INDUSTRY_SIGNALS"
    by (simp add: PRODUCT_MAPPING_def INDUSTRY_SIGNALS_def)
  show ?thesis using a b c d by (simp add: detect_industry_def Let_def)
qed

theorem products_never_empty_witness:
  "fst (detect_industry bare_env (Text '''')) = ''Unknown''
   \<and> snd (detect_industry bare_env (Text '''')) = [''Industrial Fuels'']"
proof -
  have u: "fst (detect_industry bare_env (Text '''')) = ''Unknown''" by code_simp
  from products_never_empty [of bare_env "Text ''''"] u show ?thesis by simp
qed

section \<open>Texts without keywords\<close>




section \<open>The weight of the industry Unknown\<close>

text \<open>
  C9. For every environment and input, and any two weight tables that agree on every
  key other than \<open>industry_Unknown\<close> (in value and in presence), \<open>analyze_and_score\<close>
  returns the same result: the weight stored under \<open>industry_Unknown\<close> never
  influences a score.
\<close>

theorem unknown_weight_never_used:
  assumes "\<forall>k. k \<noteq> ''industry_Unknown'' \<longrightarrow> w k = w' k"
  shows "analyze_and_score e w raw = analyze_and_score e w' raw"
proof (cases raw)
  case NonString
  then show ?thesis by (simp add: analyze_and_score_def)
next
  case (Text t)
  have a: "procurement_bonus w x sigs = procurement_bonus w' x sigs" for x sigs
    by (rule procurement_bonus_cong) (use assms in simp)
  have b: "expansion_bonus w x = expansion_bonus w' x" for x
    using assms by (simp add: expansion_bonus_def weight_get_def)
  have c: "tender_bonus w x = tender_bonus w' x" for x
    using assms by (simp add: tender_bonus_def weight_get_def)
  have d: "industry_bonus w i = industry_bonus w' i" for i
    using assms by (simp add: industry_bonus_def weight_get_def Let_def)
  have "accumulated_score e w t = accumulated_score e w' t"
    by (simp add: accumulated_score_def Let_def a b c d)
  with Text show ?thesis by (simp add: analyze_and_score_def Let_def)
qed

theorem unknown_weight_never_used_witness:
  "analyze_and_score bare_env Map.empty (Text ''Hello world'')
     = analyze_and_score bare_env (Map.empty(''industry_Unknown'' \<mapsto> 7)) (Text ''Hello world'')"
proof -
  have h: "\<forall>k. k \<noteq> ''industry_Unknown''
             \<longrightarrow> Map.empty k = (Map.empty(''industry_Unknown'' \<mapsto> (7 :: rat))) k"
    by simp
  from unknown_weight_never_used [OF h] show ?thesis .
qed

section \<open>Requirement clues are capped\<close>

text \<open>
  C10. For every input and environment, \<open>extract_requirement_clues\<close> returns the first
  14 entries of the accumulated list (procurement-signal clues, then at most one clue
  per industry vertical, then the key-phrase clues), hence at most 14 clues.
\<close>

theorem extract_requirement_clues_capped:
  "length (extract_requirement_clues e raw) \<le> 14
   \<and> extract_requirement_clues e raw = take 14 (all_clues e raw)
   \<and> list_all (\<lambda>entry. length (industry_clue text entry) \<le> 1) INDUSTRY_SIGNALS"
  by (simp add: extract_requirement_clues_def industry_clue_def list_all_iff
      split: option.split)

end
